theory Spec2Isabelle
  imports Main
begin

section \<open>Common vocabulary\<close>

text \<open>
  The package-internal namespace \<^verbatim>\<open>__\<close> supplies \<^verbatim>\<open>Absential\<close>, \<^verbatim>\<open>absent\<close> and
  \<^verbatim>\<open>is_absent\<close>. An \<^verbatim>\<open>Absential[T]\<close> is either the sentinel \<^verbatim>\<open>absent\<close> or a value of
  \<^verbatim>\<open>T\<close>; a value of \<^verbatim>\<open>T\<close> is wrapped in \<open>given\<close> here because HOL has no untagged
  unions.
\<close>

datatype 'a Absential = absent | given 'a

fun is_absent :: "'a Absential \<Rightarrow> bool" where
  "is_absent absent = True"
| "is_absent (given _) = False"

text \<open>Faults that the modelled operations can raise.\<close>

datatype fault =
    TypeError
  | AttributeImmutability string
  | NotImplementedError

section \<open>Instants and the wall clock\<close>

text \<open>
  A \<^verbatim>\<open>datetime.timezone\<close> is a fixed offset from UTC, in microseconds here;
  \<^verbatim>\<open>datetime.timezone.utc\<close> is the offset zero. A \<^verbatim>\<open>datetime.datetime\<close> is the
  number of microseconds its calendar fields denote, together with an optional zone
  (\<open>None\<close> for a naive value).
\<close>

datatype timezone = timezone (utcoffset: int)

definition utc :: timezone where
  "utc = timezone 0"

record datetime =
  wall :: int
  tzinfo :: "timezone option"

text \<open>
  The wall clock is an input of the program. The environment holds what the clock shows
  at each successive reading and how many readings were taken so far.
\<close>

record environ =
  readings :: "nat \<Rightarrow> int"
  taken :: nat

text \<open>\<^verbatim>\<open>datetime.datetime.now( tz )\<close>: one reading of the clock, expressed in zone \<open>tz\<close>.\<close>

definition datetime_now :: "timezone \<Rightarrow> environ \<Rightarrow> datetime \<times> environ" where
  "datetime_now tz env =
     (\<lparr> wall = readings env (taken env) + utcoffset tz, tzinfo = Some tz \<rparr>,
      env \<lparr> taken := Suc (taken env) \<rparr>)"

text \<open>The instant on the UTC time line that an aware value denotes.\<close>

definition utc_instant :: "datetime \<Rightarrow> int option" where
  "utc_instant d = (case tzinfo d of None \<Rightarrow> None | Some z \<Rightarrow> Some (wall d - utcoffset z))"

text \<open>
  \<^verbatim>\<open>a <= b\<close> on datetimes: two aware values compare by instant, two naive values by
  their fields, and a mixed comparison raises \<^verbatim>\<open>TypeError\<close>.
\<close>

definition datetime_le :: "datetime \<Rightarrow> datetime \<Rightarrow> fault + bool" where
  "datetime_le a b =
     (case (tzinfo a, tzinfo b) of
        (Some za, Some zb) \<Rightarrow> Inr (wall a - utcoffset za \<le> wall b - utcoffset zb)
      | (None, None) \<Rightarrow> Inr (wall a \<le> wall b)
      | _ \<Rightarrow> Inl TypeError)"

section \<open>Canisters: roles and content\<close>

datatype Role = User | Assistant | Supervisor | Document | Invocation | Result

text \<open>
  The two content classes, with their fields in declaration order. \<open>TextContent\<close>
  declares \<^verbatim>\<open>mime_type: str = 'text/plain'\<close> and \<open>PictureContent\<close> declares
  \<^verbatim>\<open>source_location: Absential[ str ] = absent\<close>; no other field has a default.
\<close>

datatype Content =
    TextContent (text_body: string) (mime_type: string)
  | PictureContent (content_id: string) (mime_type: string) (source_location: "string Absential")

text \<open>
  The generated initializers. A field with a default is an optional keyword: \<open>None\<close>
  stands for a call that leaves the keyword out. A field without a default is a plain
  parameter, since a call that leaves it out is not well-formed.
\<close>

definition TextContent_init :: "string \<Rightarrow> string option \<Rightarrow> Content" where
  "TextContent_init text_arg mime_type_kw =
     TextContent text_arg (case mime_type_kw of None \<Rightarrow> ''text/plain'' | Some m \<Rightarrow> m)"

definition PictureContent_init ::
  "string \<Rightarrow> string \<Rightarrow> string Absential option \<Rightarrow> Content" where
  "PictureContent_init content_id_arg mime_type_arg source_location_kw =
     PictureContent content_id_arg mime_type_arg
       (case source_location_kw of None \<Rightarrow> absent | Some s \<Rightarrow> s)"

section \<open>Messages\<close>

text \<open>
  A \<^verbatim>\<open>Mapping[ str, Any ]\<close> is a finite map from strings to values of some type \<open>'v\<close>;
  \<^verbatim>\<open>immut.Dictionary\<close> is the immutable dictionary built from one.
\<close>

datatype 'v Dictionary = Dictionary (entries: "string \<rightharpoonup> 'v")

text \<open>\<^verbatim>\<open>tuple( xs )\<close>: the elements of a sequence, in iteration order.\<close>

definition tuple :: "'a list \<Rightarrow> 'a list" where
  "tuple xs = foldr (#) xs []"

text \<open>
  The six message classes, each with its fields in declaration order. Every class
  declares \<^verbatim>\<open>role: Role\<close> as an ordinary field.
\<close>

datatype 'v Message =
    UserMessage (role: Role) (timestamp: datetime) (content: "Content list")
  | AssistantMessage (role: Role) (timestamp: datetime)
      (absential_content: "Content list Absential")
  | SupervisorMessage (role: Role) (timestamp: datetime) (content: "Content list")
      (cache_control: "'v Dictionary Absential")
  | DocumentMessage (role: Role) (timestamp: datetime) (content: "Content list")
      (document_id: string)
  | InvocationMessage (role: Role) (timestamp: datetime) (invocation_id: string)
      (name: string) (arguments: "'v Dictionary")
  | ResultMessage (role: Role) (timestamp: datetime) (invocation_id: string)
      (content: "Content list") (error: "string Absential")

text \<open>
  Direct construction \<^verbatim>\<open>cls( role = ..., timestamp = ..., ... )\<close>. The classes declare
  fields only: no initializer of their own and no hook that inspects the values, so the
  generated initializer binds each keyword to its field and has no failing branch.
\<close>

definition UserMessage_init ::
  "Role \<Rightarrow> datetime \<Rightarrow> Content list \<Rightarrow> fault + 'v Message" where
  "UserMessage_init r t c = Inr (UserMessage r t c)"

definition AssistantMessage_init ::
  "Role \<Rightarrow> datetime \<Rightarrow> Content list Absential \<Rightarrow> fault + 'v Message" where
  "AssistantMessage_init r t c = Inr (AssistantMessage r t c)"

definition SupervisorMessage_init ::
  "Role \<Rightarrow> datetime \<Rightarrow> Content list \<Rightarrow> 'v Dictionary Absential \<Rightarrow> fault + 'v Message" where
  "SupervisorMessage_init r t c cc = Inr (SupervisorMessage r t c cc)"

definition DocumentMessage_init ::
  "Role \<Rightarrow> datetime \<Rightarrow> Content list \<Rightarrow> string \<Rightarrow> fault + 'v Message" where
  "DocumentMessage_init r t c d = Inr (DocumentMessage r t c d)"

definition InvocationMessage_init ::
  "Role \<Rightarrow> datetime \<Rightarrow> string \<Rightarrow> string \<Rightarrow> 'v Dictionary \<Rightarrow> fault + 'v Message" where
  "InvocationMessage_init r t i n a = Inr (InvocationMessage r t i n a)"

definition ResultMessage_init ::
  "Role \<Rightarrow> datetime \<Rightarrow> string \<Rightarrow> Content list \<Rightarrow> string Absential \<Rightarrow> fault + 'v Message" where
  "ResultMessage_init r t i c e = Inr (ResultMessage r t i c e)"

text \<open>
  Every \<^verbatim>\<open>produce\<close> opens with the same statement,
  \<^verbatim>\<open>if is_absent( timestamp ): timestamp = datetime.now( timezone.utc )\<close>;
  the clock is read only on that branch.
\<close>

definition timestamp_or_now :: "datetime Absential \<Rightarrow> environ \<Rightarrow> datetime \<times> environ" where
  "timestamp_or_now ts env =
     (case ts of absent \<Rightarrow> datetime_now utc env | given t \<Rightarrow> (t, env))"

text \<open>
  The factories. A parameter declared with the default \<^verbatim>\<open>absent\<close> is called with
  \<open>absent\<close> when the caller leaves it out.
\<close>

definition UserMessage_produce ::
  "Content list \<Rightarrow> datetime Absential \<Rightarrow> environ \<Rightarrow> (fault + 'v Message) \<times> environ" where
  "UserMessage_produce content_arg ts env =
     (case timestamp_or_now ts env of
        (t, env') \<Rightarrow> (UserMessage_init User t (tuple content_arg), env'))"

definition AssistantMessage_produce ::
  "Content list Absential \<Rightarrow> datetime Absential \<Rightarrow> environ
     \<Rightarrow> (fault + 'v Message) \<times> environ" where
  "AssistantMessage_produce content_arg ts env =
     (case timestamp_or_now ts env of
        (t, env') \<Rightarrow>
          (let content_tuple =
                 (case content_arg of given c \<Rightarrow> given (tuple c) | absent \<Rightarrow> absent)
           in (AssistantMessage_init Assistant t content_tuple, env')))"

definition SupervisorMessage_produce ::
  "Content list \<Rightarrow> (string \<rightharpoonup> 'v) Absential \<Rightarrow> datetime Absential \<Rightarrow> environ
     \<Rightarrow> (fault + 'v Message) \<times> environ" where
  "SupervisorMessage_produce content_arg cache_control_arg ts env =
     (case timestamp_or_now ts env of
        (t, env') \<Rightarrow>
          (let cache_dict =
                 (case cache_control_arg of given m \<Rightarrow> given (Dictionary m) | absent \<Rightarrow> absent)
           in (SupervisorMessage_init Supervisor t (tuple content_arg) cache_dict, env')))"

definition DocumentMessage_produce ::
  "string \<Rightarrow> Content list \<Rightarrow> datetime Absential \<Rightarrow> environ
     \<Rightarrow> (fault + 'v Message) \<times> environ" where
  "DocumentMessage_produce document_id_arg content_arg ts env =
     (case timestamp_or_now ts env of
        (t, env') \<Rightarrow>
          (DocumentMessage_init Document t (tuple content_arg) document_id_arg, env'))"

definition InvocationMessage_produce ::
  "string \<Rightarrow> string \<Rightarrow> (string \<rightharpoonup> 'v) \<Rightarrow> datetime Absential \<Rightarrow> environ
     \<Rightarrow> (fault + 'v Message) \<times> environ" where
  "InvocationMessage_produce invocation_id_arg name_arg arguments_arg ts env =
     (case timestamp_or_now ts env of
        (t, env') \<Rightarrow>
          (InvocationMessage_init Invocation t invocation_id_arg name_arg
             (Dictionary arguments_arg), env'))"

definition ResultMessage_produce ::
  "string \<Rightarrow> Content list \<Rightarrow> string Absential \<Rightarrow> datetime Absential \<Rightarrow> environ
     \<Rightarrow> (fault + 'v Message) \<times> environ" where
  "ResultMessage_produce invocation_id_arg content_arg error_arg ts env =
     (case timestamp_or_now ts env of
        (t, env') \<Rightarrow>
          (ResultMessage_init Result t invocation_id_arg (tuple content_arg) error_arg, env'))"

section \<open>Calls of the factories\<close>

text \<open>
  A call of one of the six \<^verbatim>\<open>produce\<close> class methods with its arguments, so that a
  statement can range over the calls of every class.
\<close>

datatype 'v produce_call =
    UserMessage_call "Content list" "datetime Absential"
  | AssistantMessage_call "Content list Absential" "datetime Absential"
  | SupervisorMessage_call "Content list" "(string \<rightharpoonup> 'v) Absential" "datetime Absential"
  | DocumentMessage_call string "Content list" "datetime Absential"
  | InvocationMessage_call string string "string \<rightharpoonup> 'v" "datetime Absential"
  | ResultMessage_call string "Content list" "string Absential" "datetime Absential"

fun produce :: "'v produce_call \<Rightarrow> environ \<Rightarrow> (fault + 'v Message) \<times> environ" where
  "produce (UserMessage_call c ts) = UserMessage_produce c ts"
| "produce (AssistantMessage_call c ts) = AssistantMessage_produce c ts"
| "produce (SupervisorMessage_call c cc ts) = SupervisorMessage_produce c cc ts"
| "produce (DocumentMessage_call d c ts) = DocumentMessage_produce d c ts"
| "produce (InvocationMessage_call i n a ts) = InvocationMessage_produce i n a ts"
| "produce (ResultMessage_call i c e ts) = ResultMessage_produce i c e ts"

fun timestamp_arg :: "'v produce_call \<Rightarrow> datetime Absential" where
  "timestamp_arg (UserMessage_call _ ts) = ts"
| "timestamp_arg (AssistantMessage_call _ ts) = ts"
| "timestamp_arg (SupervisorMessage_call _ _ ts) = ts"
| "timestamp_arg (DocumentMessage_call _ _ ts) = ts"
| "timestamp_arg (InvocationMessage_call _ _ _ ts) = ts"
| "timestamp_arg (ResultMessage_call _ _ _ ts) = ts"

text \<open>
  Two wall clocks: one that advances by a second at every reading, and one that an
  administrator or a time service sets back by three seconds after its first reading.
\<close>

definition steady_clock :: "nat \<Rightarrow> int" where
  "steady_clock k = 1000000 * int k"

definition set_back_clock :: "nat \<Rightarrow> int" where
  "set_back_clock k = (if k = 0 then 10000000 else 7000000 + 1000000 * int k)"

section \<open>Events\<close>

text \<open>The five event classes, each with its fields in declaration order.\<close>

datatype Event =
    MessageAllocationEvent (message_id: string)
  | MessageProgressEvent (message_id: string) (chunk: string)
  | MessageUpdateEvent (message_id: string)
  | MessageCompletionEvent (message_id: string)
  | MessageAbortEvent (message_id: string) (abort_error: string)

section \<open>The class hierarchy\<close>

text \<open>
  The bases that the classes take from outside the package, and the data classes of
  \<^verbatim>\<open>canisters.py\<close>, \<^verbatim>\<open>messages.py\<close> and \<^verbatim>\<open>events.py\<close>. A class name carries the
  suffix \<open>_cls\<close> where the name itself is the constructor of its instances.
\<close>

datatype library_base = immut_DataclassObject | immut_DataclassProtocol | typx_Protocol

datatype class_name =
    Content_cls | Canister_cls
  | UserCanister_cls | AssistantCanister_cls | SupervisorCanister_cls
  | DocumentCanister_cls | InvocationCanister_cls | ResultCanister_cls
  | TextContent_cls | PictureContent_cls
  | Message_cls
  | UserMessage_cls | AssistantMessage_cls | SupervisorMessage_cls
  | DocumentMessage_cls | InvocationMessage_cls | ResultMessage_cls
  | Event_cls
  | MessageAllocationEvent_cls | MessageProgressEvent_cls | MessageUpdateEvent_cls
  | MessageCompletionEvent_cls | MessageAbortEvent_cls

text \<open>The base list of each \<^verbatim>\<open>class\<close> statement.\<close>

fun bases :: "class_name \<Rightarrow> (library_base + class_name) list" where
  "bases Content_cls = [Inl immut_DataclassProtocol, Inl typx_Protocol]"
| "bases Canister_cls = [Inl immut_DataclassProtocol, Inl typx_Protocol]"
| "bases UserCanister_cls = [Inr Canister_cls]"
| "bases AssistantCanister_cls = [Inr Canister_cls]"
| "bases SupervisorCanister_cls = [Inr Canister_cls]"
| "bases DocumentCanister_cls = [Inr Canister_cls]"
| "bases InvocationCanister_cls = [Inr Canister_cls]"
| "bases ResultCanister_cls = [Inr Canister_cls]"
| "bases TextContent_cls = [Inr Content_cls]"
| "bases PictureContent_cls = [Inr Content_cls]"
| "bases Message_cls = [Inl immut_DataclassObject]"
| "bases UserMessage_cls = [Inr Message_cls]"
| "bases AssistantMessage_cls = [Inr Message_cls]"
| "bases SupervisorMessage_cls = [Inr Message_cls]"
| "bases DocumentMessage_cls = [Inr Message_cls]"
| "bases InvocationMessage_cls = [Inr Message_cls]"
| "bases ResultMessage_cls = [Inr Message_cls]"
| "bases Event_cls = [Inl immut_DataclassObject]"
| "bases MessageAllocationEvent_cls = [Inr Event_cls]"
| "bases MessageProgressEvent_cls = [Inr Event_cls]"
| "bases MessageUpdateEvent_cls = [Inr Event_cls]"
| "bases MessageCompletionEvent_cls = [Inr Event_cls]"
| "bases MessageAbortEvent_cls = [Inr Event_cls]"

text \<open>How far a class is from the bases outside the package.\<close>

fun depth :: "class_name \<Rightarrow> nat" where
  "depth Content_cls = 0"
| "depth Canister_cls = 0"
| "depth Message_cls = 0"
| "depth Event_cls = 0"
| "depth _ = 1"

text \<open>
  A class has the immutability behaviour when it inherits it: one of its bases is
  \<^verbatim>\<open>immut.DataclassObject\<close> or \<^verbatim>\<open>immut.DataclassProtocol\<close>, or a class that has it. No
  class of the package defines attribute hooks of its own.
\<close>

function inherits_immutability :: "class_name \<Rightarrow> bool" where
  "inherits_immutability c =
     list_ex (\<lambda>b. case b of
                     Inl lb \<Rightarrow> lb = immut_DataclassObject \<or> lb = immut_DataclassProtocol
                   | Inr c' \<Rightarrow> inherits_immutability c')
       (bases c)"
  by pat_completeness auto
termination
proof (relation "measure depth")
  show "wf (measure depth)" by simp
next
  fix c b c'
  assume "b \<in> set (bases c)" and "b = Inr c'"
  then show "(c', c) \<in> measure depth"
    by (cases c) auto
qed

declare inherits_immutability.simps [simp del]

text \<open>The class of an instance.\<close>

fun Content_class :: "Content \<Rightarrow> class_name" where
  "Content_class (TextContent _ _) = TextContent_cls"
| "Content_class (PictureContent _ _ _) = PictureContent_cls"

fun Message_class :: "'v Message \<Rightarrow> class_name" where
  "Message_class (UserMessage _ _ _) = UserMessage_cls"
| "Message_class (AssistantMessage _ _ _) = AssistantMessage_cls"
| "Message_class (SupervisorMessage _ _ _ _) = SupervisorMessage_cls"
| "Message_class (DocumentMessage _ _ _ _) = DocumentMessage_cls"
| "Message_class (InvocationMessage _ _ _ _ _) = InvocationMessage_cls"
| "Message_class (ResultMessage _ _ _ _ _) = ResultMessage_cls"

fun Event_class :: "Event \<Rightarrow> class_name" where
  "Event_class (MessageAllocationEvent _) = MessageAllocationEvent_cls"
| "Event_class (MessageProgressEvent _ _) = MessageProgressEvent_cls"
| "Event_class (MessageUpdateEvent _) = MessageUpdateEvent_cls"
| "Event_class (MessageCompletionEvent _) = MessageCompletionEvent_cls"
| "Event_class (MessageAbortEvent _ _) = MessageAbortEvent_cls"

text \<open>
  Modelled from the spec: the attribute hooks (\<^verbatim>\<open>__setattr__\<close>, \<^verbatim>\<open>__delattr__\<close>) that
  \<^verbatim>\<open>immut.DataclassObject\<close> and \<^verbatim>\<open>immut.DataclassProtocol\<close> give their subclasses; the
  library behind \<^verbatim>\<open>immut\<close> is not among the sources. The spec: ``instances are
  immutable after construction (mutation attempts must fail, not silently rebind)''.
  An attempt names the attribute and carries the effect that the assignment or deletion
  would have on the instance; the result is the fault raised, if any, and the instance
  afterwards.
\<close>

definition attempt_mutation ::
  "class_name \<Rightarrow> string \<Rightarrow> ('obj \<Rightarrow> 'obj) \<Rightarrow> 'obj \<Rightarrow> fault option \<times> 'obj" where
  "attempt_mutation cls attribute effect obj =
     (if inherits_immutability cls then (Some (AttributeImmutability attribute), obj)
      else (None, effect obj))"

section \<open>Equality and hashing of instances\<close>

text \<open>
  \<^verbatim>\<open>a == b\<close> on datetimes never raises: two aware values are equal when they denote the
  same instant, two naive values when their fields agree, and an aware value never
  equals a naive one.
\<close>

definition datetime_eq :: "datetime \<Rightarrow> datetime \<Rightarrow> bool" where
  "datetime_eq a b =
     (case (tzinfo a, tzinfo b) of
        (Some za, Some zb) \<Rightarrow> wall a - utcoffset za = wall b - utcoffset zb
      | (None, None) \<Rightarrow> wall a = wall b
      | _ \<Rightarrow> False)"

text \<open>
  Modelled from the spec: the \<^verbatim>\<open>__eq__\<close> that the data classes get from
  \<^verbatim>\<open>immut.DataclassObject\<close> and \<^verbatim>\<open>immut.DataclassProtocol\<close>, which are not among the
  sources. The spec: ``equality and hashing are structural''; canisters are ``value
  objects --- no identity beyond structural equality''. Two instances are equal when they
  are of one class and their fields, taken in declaration order, are pairwise equal.
\<close>

fun Content_eq :: "Content \<Rightarrow> Content \<Rightarrow> bool" where
  "Content_eq (TextContent t m) (TextContent t' m') = (t = t' \<and> m = m')"
| "Content_eq (PictureContent c m s) (PictureContent c' m' s') = (c = c' \<and> m = m' \<and> s = s')"
| "Content_eq _ _ = False"

fun Message_eq :: "'v Message \<Rightarrow> 'v Message \<Rightarrow> bool" where
  "Message_eq (UserMessage r t c) (UserMessage r' t' c') =
     (r = r' \<and> datetime_eq t t' \<and> list_all2 Content_eq c c')"
| "Message_eq (AssistantMessage r t c) (AssistantMessage r' t' c') =
     (r = r' \<and> datetime_eq t t' \<and> rel_Absential (list_all2 Content_eq) c c')"
| "Message_eq (SupervisorMessage r t c cc) (SupervisorMessage r' t' c' cc') =
     (r = r' \<and> datetime_eq t t' \<and> list_all2 Content_eq c c' \<and> cc = cc')"
| "Message_eq (DocumentMessage r t c d) (DocumentMessage r' t' c' d') =
     (r = r' \<and> datetime_eq t t' \<and> list_all2 Content_eq c c' \<and> d = d')"
| "Message_eq (InvocationMessage r t i n a) (InvocationMessage r' t' i' n' a') =
     (r = r' \<and> datetime_eq t t' \<and> i = i' \<and> n = n' \<and> a = a')"
| "Message_eq (ResultMessage r t i c e) (ResultMessage r' t' i' c' e') =
     (r = r' \<and> datetime_eq t t' \<and> i = i' \<and> list_all2 Content_eq c c' \<and> e = e')"
| "Message_eq _ _ = False"

text \<open>
  \<^verbatim>\<open>hash( x )\<close> calls the \<^verbatim>\<open>__hash__\<close> attribute of the class of \<open>x\<close>, and raises
  \<^verbatim>\<open>TypeError\<close> when that attribute is \<^verbatim>\<open>None\<close>.
\<close>

fun hash_via :: "('obj \<Rightarrow> int) option \<Rightarrow> 'obj \<Rightarrow> fault + int" where
  "hash_via None x = Inl TypeError"
| "hash_via (Some h) x = Inr (h x)"

text \<open>
  No class of the package defines \<^verbatim>\<open>__hash__\<close>, and a class that is given an \<^verbatim>\<open>__eq__\<close>
  without one has its \<^verbatim>\<open>__hash__\<close> set to \<^verbatim>\<open>None\<close>: the instances are unhashable.
\<close>

definition Content_dunder_hash :: "(Content \<Rightarrow> int) option" where
  "Content_dunder_hash = None"

definition Message_dunder_hash :: "('v Message \<Rightarrow> int) option" where
  "Message_dunder_hash = None"

definition Content_hash :: "Content \<Rightarrow> fault + int" where
  "Content_hash c = hash_via Content_dunder_hash c"

definition Message_hash :: "'v Message \<Rightarrow> fault + int" where
  "Message_hash m = hash_via Message_dunder_hash m"

text \<open>
  The representative of a message among those equal to it: an aware timestamp is
  expressed in UTC.
\<close>

definition datetime_canonical :: "datetime \<Rightarrow> datetime" where
  "datetime_canonical d =
     (case tzinfo d of
        None \<Rightarrow> d
      | Some z \<Rightarrow> \<lparr> wall = wall d - utcoffset z, tzinfo = Some utc \<rparr>)"

fun Message_canonical :: "'v Message \<Rightarrow> 'v Message" where
  "Message_canonical (UserMessage r t c) = UserMessage r (datetime_canonical t) c"
| "Message_canonical (AssistantMessage r t c) = AssistantMessage r (datetime_canonical t) c"
| "Message_canonical (SupervisorMessage r t c cc) =
     SupervisorMessage r (datetime_canonical t) c cc"
| "Message_canonical (DocumentMessage r t c d) = DocumentMessage r (datetime_canonical t) c d"
| "Message_canonical (InvocationMessage r t i n a) =
     InvocationMessage r (datetime_canonical t) i n a"
| "Message_canonical (ResultMessage r t i c e) =
     ResultMessage r (datetime_canonical t) i c e"

section \<open>The streaming protocol\<close>









section \<open>Invokers, ensembles and the registry\<close>

text \<open>
  The declared fields of \<^verbatim>\<open>Invoker\<close> and \<^verbatim>\<open>Ensemble\<close>. An invoker refers to its ensemble
  by name; an ensemble holds its invokers as a dictionary keyed by invoker name, in
  insertion order.
\<close>

record ('v, 'r) Invoker =
  invoker_name :: string
  invocable :: "(string \<rightharpoonup> 'v) \<Rightarrow> 'v Dictionary \<Rightarrow> 'r"
  arguments_schema :: "'v Dictionary"
  ensemble :: string

record ('v, 'r) Ensemble =
  ensemble_name :: string
  invokers :: "(string \<times> ('v, 'r) Invoker) list"
  configuration :: "'v Dictionary"
  connection :: "'v Absential"

text \<open>
  Modelled from the spec: a registry and its \<^verbatim>\<open>access_invoker\<close>. The sources declare
  \<^verbatim>\<open>InvokerRegistry\<close> with abstract methods only. The spec: the registry ``owns zero or
  more Ensembles''; ``\<open>access_invoker\<close> performs a flattened by-name lookup across all
  registered Ensembles; lookups for unknown names return an explicit absence marker,
  never a raised fault''. The registry is the list of its ensembles in registration
  order, and the lookup takes the first ensemble that knows the name.
\<close>

type_synonym ('v, 'r) InvokerRegistry = "('v, 'r) Ensemble list"

fun access_invoker ::
  "('v, 'r) InvokerRegistry \<Rightarrow> string \<Rightarrow> fault + ('v, 'r) Invoker Absential" where
  "access_invoker [] nm = Inr absent"
| "access_invoker (e # es) nm =
     (case map_of (invokers e) nm of
        Some invoker \<Rightarrow> Inr (given invoker)
      | None \<Rightarrow> access_invoker es nm)"

text \<open>The names under which some registered ensemble holds an invoker.\<close>

definition registered_names :: "('v, 'r) InvokerRegistry \<Rightarrow> string set" where
  "registered_names reg = (\<Union>e \<in> set reg. fst ` set (invokers e))"

text \<open>
  The example of the spec: an ensemble \<open>math\<close> with one invoker \<open>add\<close>, which adds the
  arguments \<open>a\<close> and \<open>b\<close>.
\<close>

definition add_invoker :: "(int, int option) Invoker" where
  "add_invoker =
     \<lparr> invoker_name = ''add'',
       invocable = (\<lambda>context args.
          case (entries args ''a'', entries args ''b'') of
            (Some a, Some b) \<Rightarrow> Some (a + b)
          | _ \<Rightarrow> None),
       arguments_schema = Dictionary Map.empty,
       ensemble = ''math'' \<rparr>"

definition math_ensemble :: "(int, int option) Ensemble" where
  "math_ensemble =
     \<lparr> ensemble_name = ''math'',
       invokers = [(''add'', add_invoker)],
       configuration = Dictionary Map.empty,
       connection = absent \<rparr>"

section \<open>Properties of the factories\<close>

lemma tuple_elements: "tuple xs = xs"
  by (induction xs) (simp_all add: tuple_def)

lemmas init_defs =
  UserMessage_init_def AssistantMessage_init_def SupervisorMessage_init_def
  DocumentMessage_init_def InvocationMessage_init_def ResultMessage_init_def

lemmas produce_defs =
  UserMessage_produce_def AssistantMessage_produce_def SupervisorMessage_produce_def
  DocumentMessage_produce_def InvocationMessage_produce_def ResultMessage_produce_def

lemma timestamp_or_now_cases:
  "timestamp_or_now ts env = (t, env') \<Longrightarrow>
     (ts = absent \<and> (t, env') = datetime_now utc env) \<or> (ts = given t \<and> env' = env)"
  by (cases ts) (auto simp: timestamp_or_now_def)

text \<open>
  C1. Whatever the arguments and whatever the clock shows, each factory returns an
  instance, and the \<open>role\<close> read back from it is the role of the factory's class.
\<close>

theorem produce_role:
  "map_sum id role (fst (UserMessage_produce c ts env)) = Inr User
   \<and> map_sum id role (fst (AssistantMessage_produce ac ts env)) = Inr Assistant
   \<and> map_sum id role (fst (SupervisorMessage_produce c cc ts env)) = Inr Supervisor
   \<and> map_sum id role (fst (DocumentMessage_produce d c ts env)) = Inr Document
   \<and> map_sum id role (fst (InvocationMessage_produce i n a ts env)) = Inr Invocation
   \<and> map_sum id role (fst (ResultMessage_produce i c e ts env)) = Inr Result"
  by (simp add: produce_defs init_defs split: prod.split)

text \<open>
  C5. When the caller leaves out the content of an assistant message, the cache control
  of a supervisor message or the error of a result message, the instance holds \<open>absent\<close>
  in that field, whatever the other arguments and the clock are.
\<close>

theorem produce_keeps_absence:
  "map_sum id absential_content (fst (AssistantMessage_produce absent ts env)) = Inr absent
   \<and> map_sum id cache_control (fst (SupervisorMessage_produce c absent ts env)) = Inr absent
   \<and> map_sum id error (fst (ResultMessage_produce i c absent ts env)) = Inr absent"
  by (simp add: produce_defs init_defs split: prod.split)


section \<open>Properties of direct construction\<close>

text \<open>
  C10. A text content built from its text alone has the MIME type \<open>text/plain\<close>, and a
  picture content built without a source location holds \<open>absent\<close> there. Every other
  field, and these two when the caller supplies them, holds what the caller passed.
\<close>

theorem content_defaults:
  "mime_type (TextContent_init t None) = ''text/plain''
   \<and> source_location (PictureContent_init cid mt None) = absent
   \<and> mime_type (TextContent_init t (Some m)) = m
   \<and> source_location (PictureContent_init cid mt (Some s)) = s
   \<and> text_body (TextContent_init t k) = t
   \<and> content_id (PictureContent_init cid mt k') = cid
   \<and> mime_type (PictureContent_init cid mt k') = mt"
  by (simp add: TextContent_init_def PictureContent_init_def)

text \<open>
  C2, as stated, fails: constructing a \<open>UserMessage\<close> directly with the role
  \<open>Assistant\<close> returns an instance, and its role is \<open>Assistant\<close>.
\<close>

theorem direct_construction_counterexample:
  "map_sum id role
     (UserMessage_init Assistant \<lparr>wall = 0, tzinfo = Some utc\<rparr> [] :: fault + unit Message)
     = Inr Assistant
   \<and> Assistant \<noteq> User"
  by (simp add: UserMessage_init_def)

text \<open>
  C2, amended. Direct construction of a message of any class accepts every role and
  stores it as given; the role is fixed to that of the class only by \<open>produce\<close>.
\<close>

theorem direct_construction_role:
  "map_sum id role (UserMessage_init r t c) = Inr r
   \<and> map_sum id role (AssistantMessage_init r t ac) = Inr r
   \<and> map_sum id role (SupervisorMessage_init r t c cc) = Inr r
   \<and> map_sum id role (DocumentMessage_init r t c d) = Inr r
   \<and> map_sum id role (InvocationMessage_init r t i n a) = Inr r
   \<and> map_sum id role (ResultMessage_init r t i c e) = Inr r"
  by (simp add: init_defs)

section \<open>Immutability\<close>

lemma inherits_immutability_roots:
  "inherits_immutability Content_cls" "inherits_immutability Canister_cls"
  "inherits_immutability Message_cls" "inherits_immutability Event_cls"
  by (subst inherits_immutability.simps, simp)+

lemma inherits_immutability_all: "inherits_immutability cls"
  by (cases cls; subst inherits_immutability.simps; simp add: inherits_immutability_roots)

text \<open>
  C3. Every class of canisters, messages, content and events inherits the immutability
  behaviour, so an attempt to assign or delete an attribute of any instance raises a
  fault and leaves the instance as it was.
\<close>

theorem instances_immutable:
  "attempt_mutation (Message_class m) a f m = (Some (AttributeImmutability a), m)
   \<and> attempt_mutation (Content_class c) a g c = (Some (AttributeImmutability a), c)
   \<and> attempt_mutation (Event_class e) a h e = (Some (AttributeImmutability a), e)
   \<and> attempt_mutation cls a k x = (Some (AttributeImmutability a), x)"
  by (simp add: attempt_mutation_def inherits_immutability_all)

section \<open>Default timestamps\<close>

lemma produce_absent_timestamp:
  assumes "timestamp_arg p = absent"
  shows "\<exists>m. produce p env = (Inr m, env\<lparr>taken := Suc (taken env)\<rparr>)
           \<and> timestamp m = \<lparr>wall = readings env (taken env), tzinfo = Some utc\<rparr>"
  using assms
  by (cases p)
     (simp_all add: produce_defs init_defs timestamp_or_now_def datetime_now_def utc_def)

text \<open>
  C4, as stated, fails: on a wall clock that is set back between two calls, the second of
  two user messages produced in sequence without a timestamp carries an earlier
  timestamp than the first.
\<close>

theorem produce_timestamp_order_counterexample:
  "fst (UserMessage_produce [] absent \<lparr>readings = set_back_clock, taken = 0\<rparr>)
     = (Inr (UserMessage User \<lparr>wall = 10000000, tzinfo = Some utc\<rparr> []) :: fault + unit Message)
   \<and> fst (UserMessage_produce [] absent
        (snd (UserMessage_produce [] absent \<lparr>readings = set_back_clock, taken = 0\<rparr>
               :: (fault + unit Message) \<times> environ)))
     = (Inr (UserMessage User \<lparr>wall = 8000000, tzinfo = Some utc\<rparr> []) :: fault + unit Message)
   \<and> datetime_le \<lparr>wall = 10000000, tzinfo = Some utc\<rparr> \<lparr>wall = 8000000, tzinfo = Some utc\<rparr>
     = Inr False"
  by (simp add: produce_defs init_defs timestamp_or_now_def datetime_now_def utc_def
        set_back_clock_def tuple_elements datetime_le_def)

text \<open>
  C4, amended. A call of any \<open>produce\<close> that leaves the timestamp out returns an instance
  whose timestamp is the reading of the wall clock taken during the call, zoned UTC. Of
  two such calls made in sequence, with any number \<open>n\<close> of other readings of the clock
  between them, the later timestamp is greater than or equal to the earlier one exactly
  when the later reading of the clock is greater than or equal to the earlier one.
\<close>

theorem produce_default_timestamp:
  assumes "timestamp_arg p1 = absent" and "timestamp_arg p2 = absent"
  shows "\<exists>m1 m2 env1 env2.
           produce p1 env = (Inr m1, env1)
         \<and> produce p2 (env1\<lparr>taken := taken env1 + n\<rparr>) = (Inr m2, env2)
         \<and> timestamp m1 = \<lparr>wall = readings env (taken env), tzinfo = Some utc\<rparr>
         \<and> timestamp m2 = \<lparr>wall = readings env (Suc (taken env) + n), tzinfo = Some utc\<rparr>
         \<and> datetime_le (timestamp m1) (timestamp m2)
             = Inr (readings env (taken env) \<le> readings env (Suc (taken env) + n))"
proof -
  obtain m1 where m1: "produce p1 env = (Inr m1, env\<lparr>taken := Suc (taken env)\<rparr>)"
      "timestamp m1 = \<lparr>wall = readings env (taken env), tzinfo = Some utc\<rparr>"
    using produce_absent_timestamp [OF assms(1)] by blast
  let ?env' = "env\<lparr>taken := Suc (taken env) + n\<rparr>"
  obtain m2 where m2: "produce p2 ?env' = (Inr m2, ?env'\<lparr>taken := Suc (taken ?env')\<rparr>)"
      "timestamp m2 = \<lparr>wall = readings ?env' (taken ?env'), tzinfo = Some utc\<rparr>"
    using produce_absent_timestamp [OF assms(2)] by blast
  have "datetime_le (timestamp m1) (timestamp m2)
          = Inr (readings env (taken env) \<le> readings env (Suc (taken env) + n))"
    using m1(2) m2(2) by (simp add: datetime_le_def utc_def)
  with m1 m2 show ?thesis by simp
qed

text \<open>
  C4, amended, at a concrete input: a user message and then, two readings later, a result
  message, on a clock that advances by a second at every reading.
\<close>

theorem produce_default_timestamp_witness:
  "timestamp_arg (UserMessage_call [] absent :: unit produce_call) = absent
   \<and> timestamp_arg (ResultMessage_call ''call-1'' [] absent absent :: unit produce_call) = absent
   \<and> (\<exists>m1 m2 env1 env2.
           produce (UserMessage_call [] absent :: unit produce_call)
             \<lparr>readings = steady_clock, taken = 0\<rparr> = (Inr m1, env1)
         \<and> produce (ResultMessage_call ''call-1'' [] absent absent)
             (env1\<lparr>taken := taken env1 + 2\<rparr>) = (Inr m2, env2)
         \<and> timestamp m1 = \<lparr>wall = 0, tzinfo = Some utc\<rparr>
         \<and> timestamp m2 = \<lparr>wall = 3000000, tzinfo = Some utc\<rparr>
         \<and> datetime_le (timestamp m1) (timestamp m2) = Inr True)"
  using produce_default_timestamp
    [of "UserMessage_call [] absent :: unit produce_call"
        "ResultMessage_call ''call-1'' [] absent absent"
        "\<lparr>readings = steady_clock, taken = 0\<rparr>" 2]
  by (simp add: steady_clock_def)

section \<open>Structural equality, and the absence of hashing\<close>

lemma Content_eq_iff: "Content_eq a b \<longleftrightarrow> a = b"
  by (cases a; cases b) auto

lemma Content_eq_is_equality: "Content_eq = (=)"
  by (intro ext) (rule Content_eq_iff)

lemma contents_eq_iff: "list_all2 Content_eq xs ys \<longleftrightarrow> xs = ys"
  by (simp add: Content_eq_is_equality list.rel_eq)

lemma absential_contents_eq_iff: "rel_Absential (list_all2 Content_eq) x y \<longleftrightarrow> x = y"
  by (simp add: Content_eq_is_equality list.rel_eq Absential.rel_eq)

lemma datetime_eq_canonical: "datetime_eq a b \<longleftrightarrow> datetime_canonical a = datetime_canonical b"
  by (cases a; cases b) (auto simp: datetime_eq_def datetime_canonical_def split: option.splits)

lemma Message_eq_canonical: "Message_eq a b \<longleftrightarrow> Message_canonical a = Message_canonical b"
  by (cases a; cases b)
     (simp_all add: contents_eq_iff absential_contents_eq_iff datetime_eq_canonical)

text \<open>
  C7, as stated, fails: two user messages built from equal field values are equal, but
  neither has a hash; \<^verbatim>\<open>hash\<close> raises \<^verbatim>\<open>TypeError\<close> on both.
\<close>

theorem equal_instances_hash_counterexample:
  "Message_eq
     (UserMessage User \<lparr>wall = 0, tzinfo = Some utc\<rparr> [TextContent ''Hello'' ''text/plain''])
     (UserMessage User \<lparr>wall = 0, tzinfo = Some utc\<rparr> [TextContent ''Hello'' ''text/plain'']
        :: unit Message)
   \<and> Message_hash
       (UserMessage User \<lparr>wall = 0, tzinfo = Some utc\<rparr> [TextContent ''Hello'' ''text/plain'']
          :: unit Message) = Inl TypeError
   \<and> Content_hash (TextContent ''Hello'' ''text/plain'') = Inl TypeError"
  by (simp add: datetime_eq_def Message_hash_def Message_dunder_hash_def
        Content_hash_def Content_dunder_hash_def)

text \<open>
  C7, amended. Equality is structural: two content instances are equal exactly when they
  are of one class and agree in every field, and two messages are equal exactly when
  they are of one class and agree in every field, timestamps being compared as
  datetimes are (so exactly when their representatives coincide). No instance has a
  hash: \<^verbatim>\<open>hash\<close> raises \<^verbatim>\<open>TypeError\<close> on every content instance and every message.
\<close>

theorem structural_equality:
  "(Content_eq c c' \<longleftrightarrow> c = c')
   \<and> (Message_eq a b \<longleftrightarrow> Message_canonical a = Message_canonical b)
   \<and> Content_hash c = Inl TypeError
   \<and> Message_hash a = Inl TypeError"
  by (simp add: Content_eq_iff Message_eq_canonical [symmetric]
        Message_hash_def Message_dunder_hash_def Content_hash_def Content_dunder_hash_def)

text \<open>
  C7, amended, at a concrete input: two user messages with the same content whose
  timestamps denote one instant are equal, changing the text makes them unequal, and
  the hash of the first raises.
\<close>

theorem structural_equality_witness:
  "Content_eq (TextContent ''Hello'' ''text/plain'') (TextContent ''Hello'' ''text/plain'')
   \<and> Message_eq
       (UserMessage User \<lparr>wall = 3600000000, tzinfo = Some (timezone 3600000000)\<rparr>
          [TextContent ''Hello'' ''text/plain''])
       (UserMessage User \<lparr>wall = 0, tzinfo = Some utc\<rparr> [TextContent ''Hello'' ''text/plain'']
          :: unit Message)
   \<and> \<not> Message_eq
       (UserMessage User \<lparr>wall = 0, tzinfo = Some utc\<rparr> [TextContent ''Hello'' ''text/plain''])
       (UserMessage User \<lparr>wall = 0, tzinfo = Some utc\<rparr> [TextContent ''Hullo'' ''text/plain'']
          :: unit Message)
   \<and> Message_hash
       (UserMessage User \<lparr>wall = 3600000000, tzinfo = Some (timezone 3600000000)\<rparr>
          [TextContent ''Hello'' ''text/plain''] :: unit Message) = Inl TypeError"
  using structural_equality
    [of "TextContent ''Hello'' ''text/plain''" "TextContent ''Hello'' ''text/plain''"
        "UserMessage User \<lparr>wall = 3600000000, tzinfo = Some (timezone 3600000000)\<rparr>
          [TextContent ''Hello'' ''text/plain''] :: unit Message"
        "UserMessage User \<lparr>wall = 0, tzinfo = Some utc\<rparr> [TextContent ''Hello'' ''text/plain'']"]
  by (simp add: datetime_eq_def utc_def)

section \<open>Lookup in the registry\<close>

lemma access_invoker_unregistered:
  "nm \<notin> registered_names reg \<Longrightarrow> access_invoker reg nm = Inr absent"
proof (induction reg)
  case Nil
  show ?case by simp
next
  case (Cons e es)
  from Cons.prems have here: "map_of (invokers e) nm = None"
    by (simp add: registered_names_def map_of_eq_None_iff)
  from Cons.prems have "nm \<notin> registered_names es"
    by (simp add: registered_names_def)
  with Cons.IH here show ?case by simp
qed

lemma math_names: "registered_names [math_ensemble] = {''add''}"
  by (simp add: registered_names_def math_ensemble_def)

lemma math_lookup:
  "map_of (invokers math_ensemble) nm = (if nm = ''add'' then Some add_invoker else None)"
  by (simp add: math_ensemble_def)

text \<open>
  C8. For a name under which no registered ensemble holds an invoker, and so for every
  name on the empty registry, \<open>access_invoker\<close> returns \<open>absent\<close> and raises nothing.
\<close>

theorem access_invoker_unknown:
  "(nm \<notin> registered_names reg \<longrightarrow> access_invoker reg nm = Inr absent)
   \<and> access_invoker [] nm = (Inr absent :: fault + ('v, 'r) Invoker Absential)"
  by (simp add: access_invoker_unregistered)

text \<open>
  C8 at a concrete input, the example of the spec: with the ensemble \<open>math\<close> registered,
  \<open>subtract\<close> is unknown and the lookup returns \<open>absent\<close>, while \<open>add\<close> is found.
\<close>

theorem access_invoker_unknown_witness:
  "''subtract'' \<notin> registered_names [math_ensemble]
   \<and> access_invoker [math_ensemble] ''subtract'' = Inr absent
   \<and> access_invoker [math_ensemble] ''add'' = Inr (given add_invoker)"
  using access_invoker_unknown [of "''subtract''" "[math_ensemble]"]
  by (simp add: math_names math_lookup)

section \<open>Order of the events of one message\<close>









end
